theory Spec2Isabelle
  imports Complex_Main "HOL-Library.AList" "HOL-Library.Sublist" "HOL-Library.Word"
begin

unbundle bit_operations_syntax

section \<open>Data model\<close>

text \<open>
  The program is \<^verbatim>\<open>src/streamlit_app.py\<close>. A Python \<^verbatim>\<open>str\<close> is modelled as a
  \<^typ>\<open>string\<close> holding its UTF-8 bytes, so that \<^verbatim>\<open>password.encode()\<close> is the
  list of the string's characters read as bytes. A number stored in a file or
  quoted as a price is a \<^typ>\<open>real\<close>: the program stores, reads back and
  compares such numbers, which needs no arithmetic (NaN and the infinities
  are outside the model). Where the program computes with numbers, in the
  valuation of the portfolio page, the numbers are values of a type \<open>'n\<close> and
  Python's arithmetic is a parameter, so that nothing is assumed about the
  rounding of floats.

  A value read by \<^verbatim>\<open>json.load\<close> or written by \<^verbatim>\<open>json.dump\<close> is a \<open>json\<close>
  value. A Python \<^verbatim>\<open>dict\<close> is an association list in insertion order; the binding
  of a key is its first pair in the list (\<^const>\<open>map_of\<close>), and the assignment
  \<^verbatim>\<open>d[k] = v\<close> is \<^const>\<open>AList.update\<close>, which replaces that binding in place or
  appends a new pair at the end.
\<close>

datatype json =
    JNull
  | JBool bool
  | JNum real
  | JStr string
  | JArr "json list"
  | JObj "(string \<times> json) list"

datatype error = OSError | JSONDecodeError | TypeError | AttributeError | KeyError

text \<open>
  A file holds either a JSON document or text that \<^verbatim>\<open>json.load\<close> rejects. The
  text form of a document is not modelled: \<^verbatim>\<open>json.load\<close> of what \<^verbatim>\<open>json.dump\<close>
  wrote is taken to be the value written. The file system maps a path to the
  file stored there; \<open>writable\<close> says for which paths \<^verbatim>\<open>open(path, 'w')\<close>
  succeeds (the directory exists, the name is legal, permission is granted).
  Distinct path strings name distinct files: two spellings of one file (a user
  name with a path separator, as in \<^verbatim>\<open>./users\<close>, or a link) are outside the
  model.
\<close>

datatype file_content = Document json | Malformed

record filesystem =
  files :: "string \<rightharpoonup> file_content"
  writable :: "string \<Rightarrow> bool"

text \<open>The session variables of \<^verbatim>\<open>st.session_state\<close> (lines 105-113).\<close>

record session =
  authenticated :: bool
  username :: string
  portfolio :: json
  last_updated :: json

section \<open>Library operations used by the program\<close>

text \<open>\<^verbatim>\<open>os.path.join(a, b)\<close> of \<^verbatim>\<open>posixpath\<close>, for two components.\<close>

definition os_path_join :: "string \<Rightarrow> string \<Rightarrow> string" where
  "os_path_join a b =
     (if b \<noteq> [] \<and> hd b = CHR ''/'' then b
      else if a = [] \<or> last a = CHR ''/'' then a @ b
      else a @ ''/'' @ b)"

definition os_path_exists :: "filesystem \<Rightarrow> string \<Rightarrow> bool" where
  "os_path_exists fs p = (files fs p \<noteq> None)"

text \<open>\<^verbatim>\<open>with open(p, 'r') as f: json.load(f)\<close>\<close>

definition read_json :: "filesystem \<Rightarrow> string \<Rightarrow> error + json" where
  "read_json fs p =
     (case files fs p of
        None \<Rightarrow> Inl OSError
      | Some Malformed \<Rightarrow> Inl JSONDecodeError
      | Some (Document j) \<Rightarrow> Inr j)"

text \<open>\<^verbatim>\<open>with open(p, 'w') as f: json.dump(j, f)\<close>: the file is replaced as a whole.\<close>

definition write_json :: "filesystem \<Rightarrow> string \<Rightarrow> json \<Rightarrow> (error + unit) \<times> filesystem" where
  "write_json fs p j =
     (if writable fs p then (Inr (), fs\<lparr>files := (files fs)(p \<mapsto> Document j)\<rparr>)
      else (Inl OSError, fs))"

text \<open>\<^verbatim>\<open>d.get(k, default)\<close> on a \<^verbatim>\<open>dict\<close>.\<close>

definition dict_get :: "('k \<times> 'v) list \<Rightarrow> 'k \<Rightarrow> 'v \<Rightarrow> 'v" where
  "dict_get d k dflt = (case map_of d k of None \<Rightarrow> dflt | Some v \<Rightarrow> v)"

text \<open>
  \<^verbatim>\<open>data.get(k, default)\<close> on whatever \<^verbatim>\<open>json.load\<close> returned: only a
  \<^verbatim>\<open>dict\<close> has the method.
\<close>

fun json_get :: "json \<Rightarrow> string \<Rightarrow> json \<Rightarrow> error + json" where
  "json_get (JObj d) k dflt = Inr (dict_get d k dflt)"
| "json_get _ k dflt = Inl AttributeError"

text \<open>
  \<^verbatim>\<open>users[k] = v\<close> on whatever \<^verbatim>\<open>json.load\<close> returned: a \<^verbatim>\<open>dict\<close> is
  updated, a list takes no string index, and the other values take no item
  assignment.
\<close>

fun json_setitem :: "json \<Rightarrow> string \<Rightarrow> json \<Rightarrow> error + json" where
  "json_setitem (JObj d) k v = Inr (JObj (AList.update k v d))"
| "json_setitem _ k v = Inl TypeError"

text \<open>
  \<^verbatim>\<open>k in users and users[k] == h\<close> for strings \<open>k\<close> and \<open>h\<close>: on a
  \<^verbatim>\<open>dict\<close>, key membership and then the comparison of the stored value with the
  string; on a list, membership of the string among the elements and then an
  index that raises; on a string, the substring test and then an index that
  raises; the other values are not iterable.
\<close>

fun json_has_entry :: "json \<Rightarrow> string \<Rightarrow> string \<Rightarrow> error + bool" where
  "json_has_entry (JObj d) k h =
     (case map_of d k of None \<Rightarrow> Inr False | Some v \<Rightarrow> Inr (v = JStr h))"
| "json_has_entry (JArr xs) k h =
     (if JStr k \<in> set xs then Inl TypeError else Inr False)"
| "json_has_entry (JStr s) k h =
     (if sublist k s then Inl TypeError else Inr False)"
| "json_has_entry _ k h = Inl TypeError"

subsection \<open>SHA-256\<close>

text \<open>
  \<^verbatim>\<open>hashlib.sha256(data).hexdigest()\<close> is library code; it is modelled by the
  algorithm of FIPS 180-4 on bytes and 32-bit words: padding to a multiple of 64
  bytes, the message schedule of 64 words for each block, 64 rounds of the
  compression function, and the eight state words printed as lower-case
  hexadecimal digits.
\<close>

type_synonym u8 = "8 word"
type_synonym u32 = "32 word"

text \<open>The round constants, in the eight rows of eight of the standard's table.\<close>

definition K256 :: "u32 list" where
  "K256 =
     concat
      [[0x428a2f98, 0x71374491, 0xb5c0fbcf, 0xe9b5dba5, 0x3956c25b, 0x59f111f1, 0x923f82a4, 0xab1c5ed5],
       [0xd807aa98, 0x12835b01, 0x243185be, 0x550c7dc3, 0x72be5d74, 0x80deb1fe, 0x9bdc06a7, 0xc19bf174],
       [0xe49b69c1, 0xefbe4786, 0x0fc19dc6, 0x240ca1cc, 0x2de92c6f, 0x4a7484aa, 0x5cb0a9dc, 0x76f988da],
       [0x983e5152, 0xa831c66d, 0xb00327c8, 0xbf597fc7, 0xc6e00bf3, 0xd5a79147, 0x06ca6351, 0x14292967],
       [0x27b70a85, 0x2e1b2138, 0x4d2c6dfc, 0x53380d13, 0x650a7354, 0x766a0abb, 0x81c2c92e, 0x92722c85],
       [0xa2bfe8a1, 0xa81a664b, 0xc24b8b70, 0xc76c51a3, 0xd192e819, 0xd6990624, 0xf40e3585, 0x106aa070],
       [0x19a4c116, 0x1e376c08, 0x2748774c, 0x34b0bcb5, 0x391c0cb3, 0x4ed8aa4a, 0x5b9cca4f, 0x682e6ff3],
       [0x748f82ee, 0x78a5636f, 0x84c87814, 0x8cc70208, 0x90befffa, 0xa4506ceb, 0xbef9a3f7, 0xc67178f2]]"

type_synonym sha_state = "u32 \<times> u32 \<times> u32 \<times> u32 \<times> u32 \<times> u32 \<times> u32 \<times> u32"

definition H256 :: sha_state where
  "H256 = (0x6a09e667, 0xbb67ae85, 0x3c6ef372, 0xa54ff53a,
           0x510e527f, 0x9b05688c, 0x1f83d9ab, 0x5be0cd19)"

definition Ch :: "u32 \<Rightarrow> u32 \<Rightarrow> u32 \<Rightarrow> u32" where
  "Ch x y z = (x AND y) XOR (NOT x AND z)"

definition Maj :: "u32 \<Rightarrow> u32 \<Rightarrow> u32 \<Rightarrow> u32" where
  "Maj x y z = (x AND y) XOR (x AND z) XOR (y AND z)"

text \<open>Rotation to the right: \<open>ROTR\<^sup>n(x) = (x >> n) \<or> (x << 32 - n)\<close>, for \<open>n < 32\<close>.\<close>

definition ROTR :: "nat \<Rightarrow> u32 \<Rightarrow> u32" where
  "ROTR n x = drop_bit n x OR push_bit (32 - n) x"

definition Sigma0 :: "u32 \<Rightarrow> u32" where
  "Sigma0 x = ROTR 2 x XOR ROTR 13 x XOR ROTR 22 x"

definition Sigma1 :: "u32 \<Rightarrow> u32" where
  "Sigma1 x = ROTR 6 x XOR ROTR 11 x XOR ROTR 25 x"

definition sigma0 :: "u32 \<Rightarrow> u32" where
  "sigma0 x = ROTR 7 x XOR ROTR 18 x XOR drop_bit 3 x"

definition sigma1 :: "u32 \<Rightarrow> u32" where
  "sigma1 x = ROTR 17 x XOR ROTR 19 x XOR drop_bit 10 x"

definition sha_pad :: "u8 list \<Rightarrow> u8 list" where
  "sha_pad msg =
     msg @ [0x80] @ replicate ((119 - length msg mod 64) mod 64) 0
       @ map (\<lambda>i. ucast (drop_bit (8 * i) (of_nat (8 * length msg) :: 64 word)))
           [7, 6, 5, 4, 3, 2, 1, 0]"

definition be32 :: "u8 list \<Rightarrow> u32" where
  "be32 bs = foldl (\<lambda>acc b. push_bit 8 acc OR ucast b) 0 bs"

definition block_words :: "u8 list \<Rightarrow> u32 list" where
  "block_words blk = map (\<lambda>j. be32 (take 4 (drop (4 * j) blk))) [0..<16]"

fun schedule :: "nat \<Rightarrow> u32 list \<Rightarrow> u32 list" where
  "schedule 0 w = w"
| "schedule (Suc n) w =
     (let t = length w
      in schedule n (w @ [sigma1 (w ! (t - 2)) + w ! (t - 7) + sigma0 (w ! (t - 15)) + w ! (t - 16)]))"

fun sha_round :: "sha_state \<Rightarrow> u32 \<times> u32 \<Rightarrow> sha_state" where
  "sha_round (a, b, c, d, e, f, g, h) (k, w) =
     (let T1 = h + Sigma1 e + Ch e f g + k + w;
          T2 = Sigma0 a + Maj a b c
      in (T1 + T2, a, b, c, d + T1, e, f, g))"

fun add_state :: "sha_state \<Rightarrow> sha_state \<Rightarrow> sha_state" where
  "add_state (a, b, c, d, e, f, g, h) (a', b', c', d', e', f', g', h') =
     (a + a', b + b', c + c', d + d', e + e', f + f', g + g', h + h')"

definition compress :: "sha_state \<Rightarrow> u8 list \<Rightarrow> sha_state" where
  "compress H blk = add_state H (foldl sha_round H (zip K256 (schedule 48 (block_words blk))))"

definition sha256 :: "u8 list \<Rightarrow> sha_state" where
  "sha256 msg =
     (let padded = sha_pad msg
      in foldl compress H256
           (map (\<lambda>i. take 64 (drop (64 * i) padded)) [0..<length padded div 64]))"

definition hex_digit :: "u32 \<Rightarrow> char" where
  "hex_digit n = ''0123456789abcdef'' ! unat (n AND 15)"

definition hex32 :: "u32 \<Rightarrow> string" where
  "hex32 w = map (\<lambda>i. hex_digit (drop_bit (4 * i) w)) [7, 6, 5, 4, 3, 2, 1, 0]"

fun hexdigest :: "sha_state \<Rightarrow> string" where
  "hexdigest (a, b, c, d, e, f, g, h) = concat (map hex32 [a, b, c, d, e, f, g, h])"

section \<open>Password hashing (lines 43-45)\<close>

text \<open>\<^verbatim>\<open>password.encode()\<close>: the bytes of the string.\<close>

definition str_encode :: "string \<Rightarrow> u8 list" where
  "str_encode s = map of_char s"

definition hash_password :: "string \<Rightarrow> string" where
  "hash_password password = hexdigest (sha256 (str_encode password))"

section \<open>Persistence (lines 47-102)\<close>

definition DATA_DIR :: string where
  "DATA_DIR = ''user_data''"

definition portfolio_path :: "string \<Rightarrow> string" where
  "portfolio_path uname = os_path_join DATA_DIR (uname @ ''.json'')"

definition users_file :: string where
  "users_file = os_path_join DATA_DIR ''users.json''"

text \<open>
  \<^verbatim>\<open>save_user_portfolio\<close> (lines 47-60). \<open>now\<close> is the string that
  \<^verbatim>\<open>datetime.now().strftime(...)\<close> gives at line 54.
\<close>

definition save_user_portfolio ::
  "filesystem \<Rightarrow> string \<Rightarrow> string \<Rightarrow> json \<Rightarrow> (error + bool) \<times> filesystem" where
  "save_user_portfolio fs now uname pf =
     (let file_path = portfolio_path uname;
          data_to_save = JObj [(''portfolio'', pf), (''last_updated'', JStr now)]
      in case write_json fs file_path data_to_save of
           (Inl e, fs') \<Rightarrow> (Inl e, fs')
         | (Inr _, fs') \<Rightarrow> (Inr True, fs'))"

text \<open>\<^verbatim>\<open>load_user_portfolio\<close> (lines 62-71).\<close>

definition load_user_portfolio :: "filesystem \<Rightarrow> string \<Rightarrow> error + (json \<times> json)" where
  "load_user_portfolio fs uname =
     (let file_path = portfolio_path uname
      in if os_path_exists fs file_path then
           (case read_json fs file_path of
              Inl e \<Rightarrow> Inl e
            | Inr data \<Rightarrow>
               (case json_get data ''portfolio'' (JObj []) of
                  Inl e \<Rightarrow> Inl e
                | Inr pf \<Rightarrow>
                   (case json_get data ''last_updated'' (JStr []) of
                      Inl e \<Rightarrow> Inl e
                    | Inr ts \<Rightarrow> Inr (pf, ts))))
         else Inr (JObj [], JStr []))"

text \<open>\<^verbatim>\<open>user_exists\<close> (lines 73-75).\<close>

definition user_exists :: "filesystem \<Rightarrow> string \<Rightarrow> bool" where
  "user_exists fs uname = os_path_exists fs (portfolio_path uname)"

text \<open>\<^verbatim>\<open>save_user_credentials\<close> (lines 77-90).\<close>

definition save_user_credentials ::
  "filesystem \<Rightarrow> string \<Rightarrow> string \<Rightarrow> (error + unit) \<times> filesystem" where
  "save_user_credentials fs uname password_hash =
     (case (if os_path_exists fs users_file then read_json fs users_file
            else Inr (JObj [])) of
        Inl e \<Rightarrow> (Inl e, fs)
      | Inr users \<Rightarrow>
         (case json_setitem users uname (JStr password_hash) of
            Inl e \<Rightarrow> (Inl e, fs)
          | Inr users' \<Rightarrow> write_json fs users_file users'))"

text \<open>\<^verbatim>\<open>check_credentials\<close> (lines 92-102).\<close>

definition check_credentials :: "filesystem \<Rightarrow> string \<Rightarrow> string \<Rightarrow> error + bool" where
  "check_credentials fs uname password_hash =
     (if \<not> os_path_exists fs users_file then Inr False
      else case read_json fs users_file of
             Inl e \<Rightarrow> Inl e
           | Inr users \<Rightarrow> json_has_entry users uname password_hash)"

section \<open>Session management (lines 104-141)\<close>

text \<open>
  \<^verbatim>\<open>login_user\<close> (lines 115-125). The session is returned as it stands when
  the function returns or raises: a raise at line 121 comes after the
  assignments of lines 118-119.
\<close>

definition login_user ::
  "filesystem \<Rightarrow> session \<Rightarrow> string \<Rightarrow> string \<Rightarrow> (error + bool) \<times> session" where
  "login_user fs s uname password =
     (let password_hash = hash_password password
      in case check_credentials fs uname password_hash of
           Inl e \<Rightarrow> (Inl e, s)
         | Inr ok \<Rightarrow>
            if ok then
              (let s1 = s\<lparr>authenticated := True, username := uname\<rparr>
               in case load_user_portfolio fs uname of
                    Inl e \<Rightarrow> (Inl e, s1)
                  | Inr (pf, ts) \<Rightarrow> (Inr True, s1\<lparr>portfolio := pf, last_updated := ts\<rparr>))
            else (Inr False, s))"

text \<open>
  \<^verbatim>\<open>register_user\<close> (lines 127-135). \<open>now\<close> is the timestamp read inside
  \<^verbatim>\<open>save_user_portfolio\<close>.
\<close>

definition register_user ::
  "filesystem \<Rightarrow> string \<Rightarrow> string \<Rightarrow> string \<Rightarrow> (error + bool) \<times> filesystem" where
  "register_user fs now uname password =
     (if user_exists fs uname then (Inr False, fs)
      else
        (let password_hash = hash_password password
         in case save_user_credentials fs uname password_hash of
              (Inl e, fs1) \<Rightarrow> (Inl e, fs1)
            | (Inr _, fs1) \<Rightarrow>
               (case save_user_portfolio fs1 now uname (JObj []) of
                  (Inl e, fs2) \<Rightarrow> (Inl e, fs2)
                | (Inr _, fs2) \<Rightarrow> (Inr True, fs2))))"

text \<open>\<^verbatim>\<open>logout_user\<close> (lines 137-141).\<close>

definition logout_user :: "session \<Rightarrow> session" where
  "logout_user s =
     s\<lparr>authenticated := False, username := [], portfolio := JObj [], last_updated := JStr []\<rparr>"

section \<open>Price fetching (lines 18-41)\<close>

text \<open>
  The market-data library is outside the program. One query
  \<^verbatim>\<open>yf.Ticker(ticker).history(period="1d")\<close> followed by the reads of lines 29-30
  either raises an exception with a message, or yields the rows of the
  \<^verbatim>\<open>Close\<close> column (no rows when \<^verbatim>\<open>hist.empty\<close>). The source of the data is
  a parameter \<open>q\<close> with a state of its own, so that successive queries may
  answer differently.
\<close>

datatype response = Raises string | History "real list"

text \<open>\<^verbatim>\<open>ticker.split('-')[0]\<close>: the text before the first hyphen.\<close>

definition split_first :: "string \<Rightarrow> string" where
  "split_first ticker = takeWhile (\<lambda>c. c \<noteq> CHR ''-'') ticker"

text \<open>
  The loop of lines 23-39, with the dictionary \<open>data\<close> and the warnings shown
  by \<^verbatim>\<open>st.warning\<close> as accumulators. The \<^verbatim>\<open>except Exception\<close> clause turns
  a raise of the query into a warning. The pause of line 37 does not change
  the result and is left out.
\<close>

fun fetch_loop ::
  "('m \<Rightarrow> string \<Rightarrow> response \<times> 'm) \<Rightarrow> string list \<Rightarrow> 'm \<Rightarrow> (string \<times> real) list \<Rightarrow> string list
     \<Rightarrow> (string \<times> real) list \<times> string list \<times> 'm" where
  "fetch_loop q [] m data warnings = (data, warnings, m)"
| "fetch_loop q (ticker # rest) m data warnings =
     (case q m ticker of
        (Raises e, m') \<Rightarrow>
          fetch_loop q rest m' data
            (warnings @ [''Failed to get data for '' @ ticker @ '': '' @ e])
      | (History hist, m') \<Rightarrow>
          if hist \<noteq> [] then
            (let price = last hist;
                 symbol = split_first ticker
             in fetch_loop q rest m' (AList.update symbol price data) warnings)
          else
            fetch_loop q rest m' data (warnings @ [''No data available for '' @ ticker]))"

definition get_crypto_data ::
  "('m \<Rightarrow> string \<Rightarrow> response \<times> 'm) \<Rightarrow> 'm \<Rightarrow> string list
     \<Rightarrow> (string \<times> real) list \<times> string list \<times> 'm" where
  "get_crypto_data q m symbols =
     (let crypto_tickers = map (\<lambda>symbol. symbol @ ''-USD'') symbols
      in fetch_loop q crypto_tickers m [] [])"

section \<open>The portfolio page (lines 187-276)\<close>

text \<open>A holdings mapping from symbols to amounts, as the JSON value that stores it.\<close>

definition holdings_json :: "(string \<times> real) list \<Rightarrow> json" where
  "holdings_json h = JObj (map (\<lambda>(k, v). (k, JNum v)) h)"

text \<open>
  The "Save Changes" branch (lines 223-231), for an edited portfolio with
  numeric amounts. \<open>now_file\<close> is the timestamp read inside
  \<^verbatim>\<open>save_user_portfolio\<close>, \<open>now_session\<close> the one read at line 230.
\<close>

definition save_changes ::
  "filesystem \<Rightarrow> string \<Rightarrow> string \<Rightarrow> session \<Rightarrow> (string \<times> real) list
     \<Rightarrow> (error + unit) \<times> filesystem \<times> session" where
  "save_changes fs now_file now_session s edited_portfolio =
     (let edited = filter (\<lambda>(k, v). v > 0) edited_portfolio
      in case save_user_portfolio fs now_file (username s) (holdings_json edited) of
           (Inl e, fs') \<Rightarrow> (Inl e, fs', s)
         | (Inr _, fs') \<Rightarrow>
             (Inr (), fs', s\<lparr>portfolio := holdings_json edited,
                             last_updated := JStr now_session\<rparr>))"

text \<open>
  The valuation (lines 238-239). Amounts and prices are numbers of Python, of a
  type \<open>'n\<close> that is not modelled further. The arithmetic is a parameter:
  \<open>py_mul\<close> is the product \<^verbatim>\<open>*\<close> of line 239, \<open>py_sum\<close> the built-in
  \<^verbatim>\<open>sum\<close>, which receives the products in the order of the dictionary, and
  \<open>py_zero\<close> the default \<^verbatim>\<open>0\<close> of \<^verbatim>\<open>.get\<close>. What is stated of the
  valuation holds for whatever these do, rounding included.
\<close>

definition portfolio_for_display ::
  "(string \<times> 'n) list \<Rightarrow> (string \<times> 'n) list \<Rightarrow> (string \<times> 'n) list" where
  "portfolio_for_display pf crypto_prices =
     filter (\<lambda>(k, v). k \<in> fst ` set crypto_prices) pf"

definition total_value ::
  "('n \<Rightarrow> 'n \<Rightarrow> 'n) \<Rightarrow> ('n list \<Rightarrow> 'n) \<Rightarrow> 'n
     \<Rightarrow> (string \<times> 'n) list \<Rightarrow> (string \<times> 'n) list \<Rightarrow> 'n" where
  "total_value py_mul py_sum py_zero pf crypto_prices =
     (let pfd = portfolio_for_display pf crypto_prices
      in py_sum (map (\<lambda>coin. py_mul (dict_get pfd coin py_zero)
                                    (dict_get crypto_prices coin py_zero))
                   (map fst pfd)))"

text \<open>\<^verbatim>\<open>d[k]\<close> on a \<^verbatim>\<open>dict\<close>.\<close>

definition dict_item :: "('k \<times> 'v) list \<Rightarrow> 'k \<Rightarrow> error + 'v" where
  "dict_item d k = (case map_of d k of None \<Rightarrow> Inl KeyError | Some v \<Rightarrow> Inr v)"

text \<open>
  The rows of the table (lines 244-250), before line 253 sorts them by value:
  coin, amount, price and value of each entry of \<^verbatim>\<open>portfolio_for_display\<close>.
  \<open>None\<close> stands for the branch of line 276, which shows no table.
\<close>

fun value_column ::
  "('n \<Rightarrow> 'n \<Rightarrow> 'n) \<Rightarrow> 'n \<Rightarrow> (string \<times> 'n) list \<Rightarrow> (string \<times> 'n) list \<Rightarrow> string list
     \<Rightarrow> error + 'n list" where
  "value_column py_mul py_zero pfd crypto_prices [] = Inr []"
| "value_column py_mul py_zero pfd crypto_prices (coin # coins) =
     (case dict_item pfd coin of
        Inl e \<Rightarrow> Inl e
      | Inr amount \<Rightarrow>
         (case value_column py_mul py_zero pfd crypto_prices coins of
            Inl e \<Rightarrow> Inl e
          | Inr vs \<Rightarrow> Inr (py_mul amount (dict_get crypto_prices coin py_zero) # vs)))"

definition portfolio_data ::
  "('n \<Rightarrow> 'n \<Rightarrow> 'n) \<Rightarrow> 'n \<Rightarrow> (string \<times> 'n) list \<Rightarrow> (string \<times> 'n) list
     \<Rightarrow> error + (string \<times> 'n \<times> 'n \<times> 'n) list option" where
  "portfolio_data py_mul py_zero pf crypto_prices =
     (let pfd = portfolio_for_display pf crypto_prices
      in if pfd \<noteq> [] then
           (case value_column py_mul py_zero pfd crypto_prices (map fst pfd) of
              Inl e \<Rightarrow> Inl e
            | Inr vs \<Rightarrow>
                Inr (Some (zip (map fst pfd)
                            (zip (map snd pfd)
                               (zip (map (\<lambda>coin. dict_get crypto_prices coin py_zero)
                                      (map fst pfd))
                                  vs)))))
         else Inr None)"

section \<open>Observations used in the statements\<close>

text \<open>
  The entry that the shared credential file stores under a user name: the
  value bound to the name when the file holds a JSON object, and nothing when
  the file is missing or holds anything else.
\<close>

definition stored_digest :: "filesystem \<Rightarrow> string \<Rightarrow> json option" where
  "stored_digest fs uname =
     (case files fs users_file of
        Some (Document (JObj users)) \<Rightarrow> map_of users uname
      | _ \<Rightarrow> None)"

text \<open>An empty data directory in which every write succeeds.\<close>

abbreviation empty_fs :: filesystem where
  "empty_fs \<equiv> \<lparr>files = Map.empty, writable = (\<lambda>p. True)\<rparr>"

section \<open>Properties\<close>

subsection \<open>Shape of the digest\<close>

lemma hex_digit_in: "hex_digit n \<in> set ''0123456789abcdef''"
proof -
  have "unat (n AND 15) \<le> unat (15 :: u32)"
    by (rule word_and_le1 [THEN word_le_nat_alt [THEN iffD1]])
  then have "unat (n AND 15) < length ''0123456789abcdef''" by simp
  then show ?thesis unfolding hex_digit_def by (rule nth_mem)
qed

lemma length_hex32: "length (hex32 w) = 8"
  by (simp add: hex32_def)

lemma set_hex32: "set (hex32 w) \<subseteq> set ''0123456789abcdef''"
  unfolding hex32_def using hex_digit_in by auto

lemma length_hexdigest: "length (hexdigest st) = 64"
  by (induct st rule: hexdigest.induct) (simp add: length_hex32)

lemma set_hexdigest: "set (hexdigest st) \<subseteq> set ''0123456789abcdef''"
proof (induct st rule: hexdigest.induct)
  case (1 a b c d e f g h)
  have "set (concat (map hex32 ws)) \<subseteq> set ''0123456789abcdef''" for ws
    using set_hex32 by (induct ws) auto
  then show ?case unfolding hexdigest.simps .
qed

lemma length_hash_password: "length (hash_password p) = 64"
  by (simp add: hash_password_def length_hexdigest)

lemma set_hash_password: "set (hash_password p) \<subseteq> set ''0123456789abcdef''"
  unfolding hash_password_def by (rule set_hexdigest)

subsection \<open>The credential store\<close>

lemma portfolio_path_users: "portfolio_path ''users'' = users_file"
  by (simp add: portfolio_path_def users_file_def)

lemma portfolio_path_eq_users_file: "portfolio_path u = users_file \<longleftrightarrow> u = ''users''"
  by (auto simp: portfolio_path_def users_file_def os_path_join_def DATA_DIR_def
      dest: arg_cong [where f = butlast])

text \<open>
  \<^verbatim>\<open>save_user_credentials\<close> returns normally exactly when the credential file
  can be written and is either missing or a JSON object; the new file is the
  old object with the entry of the user set.
\<close>

lemma save_user_credentials_Inr:
  "save_user_credentials fs u d = (Inr r, fs') \<longleftrightarrow>
     writable fs users_file \<and>
     (\<exists>users. (files fs users_file = None \<and> users = [] \<or>
               files fs users_file = Some (Document (JObj users))) \<and>
        fs' = fs\<lparr>files := (files fs)(users_file \<mapsto>
                Document (JObj (AList.update u (JStr d) users)))\<rparr>)"
proof (cases "files fs users_file")
  case None
  then show ?thesis
    by (auto simp: save_user_credentials_def os_path_exists_def write_json_def)
next
  case (Some c)
  show ?thesis
  proof (cases c)
    case (Document j)
    with Some show ?thesis
      by (cases j)
        (auto simp: save_user_credentials_def os_path_exists_def read_json_def write_json_def)
  next
    case Malformed
    with Some show ?thesis
      by (auto simp: save_user_credentials_def os_path_exists_def read_json_def)
  qed
qed

lemma check_after_save:
  assumes "save_user_credentials fs u d = (Inr r, fs')"
  shows "check_credentials fs' u d = Inr True"
  using assms unfolding save_user_credentials_Inr
  by (auto simp: check_credentials_def os_path_exists_def read_json_def update_conv')

text \<open>
  Claim C1. \<open>hash_password\<close> is a function of the password alone (no salt, no
  state), and its value is a string of 64 lower-case hexadecimal digits.
  Whenever \<^verbatim>\<open>save_user_credentials(u, hash_password(p))\<close> returns, a call of
  \<^verbatim>\<open>check_credentials(u, hash_password(p))\<close> on the resulting files, with the
  digest computed again, returns \<^verbatim>\<open>True\<close>.
\<close>

theorem check_true_after_save:
  assumes "save_user_credentials fs u (hash_password p) = (Inr (), fs')"
  shows "check_credentials fs' u (hash_password p) = Inr True \<and>
         length (hash_password p) = 64 \<and>
         set (hash_password p) \<subseteq> set ''0123456789abcdef''"
  using check_after_save [OF assms] length_hash_password set_hash_password by blast

theorem check_true_after_save_witness:
  "save_user_credentials empty_fs ''bob'' (hash_password ''pw'') =
     (Inr (), empty_fs\<lparr>files :=
        [users_file \<mapsto> Document (JObj [(''bob'', JStr (hash_password ''pw''))])]\<rparr>)
   \<and> check_credentials
        (empty_fs\<lparr>files :=
           [users_file \<mapsto> Document (JObj [(''bob'', JStr (hash_password ''pw''))])]\<rparr>)
        ''bob'' (hash_password ''pw'') = Inr True
   \<and> length (hash_password ''pw'') = 64
   \<and> set (hash_password ''pw'') \<subseteq> set ''0123456789abcdef''"
proof -
  have h: "save_user_credentials empty_fs ''bob'' (hash_password ''pw'') =
     (Inr (), empty_fs\<lparr>files :=
        [users_file \<mapsto> Document (JObj [(''bob'', JStr (hash_password ''pw''))])]\<rparr>)"
    by (simp add: save_user_credentials_def os_path_exists_def write_json_def)
  from check_true_after_save [OF h] h show ?thesis by blast
qed

text \<open>
  Claim C10. When \<^verbatim>\<open>save_user_credentials(u, d)\<close> returns, the entry stored for
  every other user name is what it was before, the entry of \<open>u\<close> is \<open>d\<close>,
  and \<^verbatim>\<open>check_credentials\<close> answers for every other user name as before.
\<close>

theorem save_credentials_frame:
  assumes "save_user_credentials fs u d = (Inr (), fs')" and "u' \<noteq> u"
  shows "stored_digest fs' u' = stored_digest fs u' \<and>
         stored_digest fs' u = Some (JStr d) \<and>
         check_credentials fs' u' h = check_credentials fs u' h"
  using assms unfolding save_user_credentials_Inr
  by (auto simp: stored_digest_def check_credentials_def os_path_exists_def read_json_def
      update_conv')

theorem save_credentials_frame_witness:
  "save_user_credentials
     (empty_fs\<lparr>files := [users_file \<mapsto>
        Document (JObj [(''alice'', JStr ''aa''), (''bob'', JStr ''bb'')])]\<rparr>) ''bob'' ''cc''
     = (Inr (), empty_fs\<lparr>files := [users_file \<mapsto>
          Document (JObj [(''alice'', JStr ''aa''), (''bob'', JStr ''cc'')])]\<rparr>)
   \<and> ''alice'' \<noteq> ''bob''
   \<and> stored_digest
        (empty_fs\<lparr>files := [users_file \<mapsto>
           Document (JObj [(''alice'', JStr ''aa''), (''bob'', JStr ''cc'')])]\<rparr>) ''alice''
       = Some (JStr ''aa'')
   \<and> stored_digest
        (empty_fs\<lparr>files := [users_file \<mapsto>
           Document (JObj [(''alice'', JStr ''aa''), (''bob'', JStr ''cc'')])]\<rparr>) ''bob''
       = Some (JStr ''cc'')
   \<and> check_credentials
        (empty_fs\<lparr>files := [users_file \<mapsto>
           Document (JObj [(''alice'', JStr ''aa''), (''bob'', JStr ''cc'')])]\<rparr>) ''alice'' ''aa''
       = Inr True"
proof -
  let ?fs = "empty_fs\<lparr>files := [users_file \<mapsto>
        Document (JObj [(''alice'', JStr ''aa''), (''bob'', JStr ''bb'')])]\<rparr>"
  let ?fs' = "empty_fs\<lparr>files := [users_file \<mapsto>
        Document (JObj [(''alice'', JStr ''aa''), (''bob'', JStr ''cc'')])]\<rparr>"
  have h: "save_user_credentials ?fs ''bob'' ''cc'' = (Inr (), ?fs')"
    by (simp add: save_user_credentials_def os_path_exists_def read_json_def write_json_def)
  have n: "''alice'' \<noteq> ''bob''" by simp
  have b: "stored_digest ?fs ''alice'' = Some (JStr ''aa'')"
    by (simp add: stored_digest_def)
  have c: "check_credentials ?fs ''alice'' ''aa'' = Inr True"
    by (simp add: check_credentials_def os_path_exists_def read_json_def)
  from save_credentials_frame [OF h n, of "''aa''"] h n b c show ?thesis by simp
qed

subsection \<open>The portfolio store\<close>

lemma save_user_portfolio_Inr:
  "save_user_portfolio fs now u pf = (Inr r, fs') \<longleftrightarrow>
     writable fs (portfolio_path u) \<and> r = True \<and>
     fs' = fs\<lparr>files := (files fs)(portfolio_path u \<mapsto>
             Document (JObj [(''portfolio'', pf), (''last_updated'', JStr now)]))\<rparr>"
  by (auto simp: save_user_portfolio_def write_json_def Let_def split: if_splits)

text \<open>
  Claim C3. Whenever \<^verbatim>\<open>save_user_portfolio(u, H)\<close> returns, the file of \<open>u\<close>
  holds exactly \<open>H\<close> and the timestamp of this save, whatever it held before,
  and \<^verbatim>\<open>load_user_portfolio(u)\<close> returns \<open>H\<close>, unchanged, with that timestamp.
\<close>

theorem save_load_roundtrip:
  assumes "save_user_portfolio fs now u pf = (Inr r, fs')"
  shows "load_user_portfolio fs' u = Inr (pf, JStr now) \<and>
         files fs' (portfolio_path u) =
           Some (Document (JObj [(''portfolio'', pf), (''last_updated'', JStr now)]))"
  using assms unfolding save_user_portfolio_Inr
  by (simp add: load_user_portfolio_def os_path_exists_def read_json_def dict_get_def)

theorem save_load_roundtrip_witness:
  "save_user_portfolio
     (empty_fs\<lparr>files := [portfolio_path ''alice'' \<mapsto>
        Document (JObj [(''portfolio'', holdings_json [(''ETH'', 7)]),
                        (''last_updated'', JStr ''2024-04-30 09:00:00'')])]\<rparr>)
     ''2024-05-01 12:00:00'' ''alice'' (holdings_json [(''BTC'', 3 / 2)])
     = (Inr True, empty_fs\<lparr>files := [portfolio_path ''alice'' \<mapsto>
          Document (JObj [(''portfolio'', holdings_json [(''BTC'', 3 / 2)]),
                          (''last_updated'', JStr ''2024-05-01 12:00:00'')])]\<rparr>)
   \<and> load_user_portfolio
        (empty_fs\<lparr>files := [portfolio_path ''alice'' \<mapsto>
          Document (JObj [(''portfolio'', holdings_json [(''BTC'', 3 / 2)]),
                          (''last_updated'', JStr ''2024-05-01 12:00:00'')])]\<rparr>) ''alice''
       = Inr (holdings_json [(''BTC'', 3 / 2)], JStr ''2024-05-01 12:00:00'')"
proof -
  have h: "save_user_portfolio
     (empty_fs\<lparr>files := [portfolio_path ''alice'' \<mapsto>
        Document (JObj [(''portfolio'', holdings_json [(''ETH'', 7)]),
                        (''last_updated'', JStr ''2024-04-30 09:00:00'')])]\<rparr>)
     ''2024-05-01 12:00:00'' ''alice'' (holdings_json [(''BTC'', 3 / 2)])
     = (Inr True, empty_fs\<lparr>files := [portfolio_path ''alice'' \<mapsto>
          Document (JObj [(''portfolio'', holdings_json [(''BTC'', 3 / 2)]),
                          (''last_updated'', JStr ''2024-05-01 12:00:00'')])]\<rparr>)"
    by (simp add: save_user_portfolio_def write_json_def)
  from save_load_roundtrip [OF h] h show ?thesis by blast
qed

text \<open>
  Claim C7. For a user name whose portfolio file does not exist,
  \<^verbatim>\<open>load_user_portfolio\<close> returns normally, with the empty holdings mapping
  \<^verbatim>\<open>{}\<close> and the empty timestamp string: the missing file is not an error.
\<close>

theorem load_missing_is_empty:
  assumes "files fs (portfolio_path u) = None"
  shows "load_user_portfolio fs u = Inr (JObj [], JStr [])"
  using assms by (simp add: load_user_portfolio_def os_path_exists_def)

theorem load_missing_is_empty_witness:
  "files empty_fs (portfolio_path ''alice'') = None
   \<and> load_user_portfolio empty_fs ''alice'' = Inr (JObj [], JStr [])"
  using load_missing_is_empty [of empty_fs "''alice''"] by simp

subsection \<open>Login\<close>

lemma login_user_False_iff:
  "fst (login_user fs s u p) = Inr False \<longleftrightarrow>
     check_credentials fs u (hash_password p) = Inr False"
  by (auto simp: login_user_def Let_def split: sum.splits prod.splits)

lemma login_user_False_session:
  "login_user fs s u p = (Inr False, s') \<Longrightarrow> s' = s"
  by (auto simp: login_user_def Let_def split: sum.splits prod.splits if_splits)

text \<open>
  Claim C8. When there is no credential file, or the credential file is an
  object that has no entry for the user name, or one whose entry differs from
  the digest of the password given, \<^verbatim>\<open>login_user\<close> returns \<^verbatim>\<open>False\<close>
  and leaves every session variable as it was: a session that is not
  authenticated stays so, and no portfolio is loaded into it.
\<close>

theorem login_wrong_password:
  assumes "files fs users_file = None \<or>
           (\<exists>users. files fs users_file = Some (Document (JObj users)) \<and>
                    map_of users u \<noteq> Some (JStr (hash_password p)))"
  shows "login_user fs s u p = (Inr False, s)"
  using assms
  by (auto simp: login_user_def check_credentials_def os_path_exists_def read_json_def
      split: option.splits)

theorem login_wrong_password_witness:
  "(files (empty_fs\<lparr>files := [users_file \<mapsto>
        Document (JObj [(''bob'', JStr (hash_password ''pw''))])]\<rparr>) users_file = None
    \<or> (\<exists>users. files (empty_fs\<lparr>files := [users_file \<mapsto>
           Document (JObj [(''bob'', JStr (hash_password ''pw''))])]\<rparr>) users_file
          = Some (Document (JObj users))
        \<and> map_of users ''carol'' \<noteq> Some (JStr (hash_password ''wrong''))))
   \<and> login_user
        (empty_fs\<lparr>files := [users_file \<mapsto>
           Document (JObj [(''bob'', JStr (hash_password ''pw''))])]\<rparr>)
        \<lparr>authenticated = False, username = [], portfolio = JObj [], last_updated = JStr []\<rparr>
        ''carol'' ''wrong''
       = (Inr False,
          \<lparr>authenticated = False, username = [], portfolio = JObj [], last_updated = JStr []\<rparr>)"
proof -
  let ?fs = "empty_fs\<lparr>files := [users_file \<mapsto>
        Document (JObj [(''bob'', JStr (hash_password ''pw''))])]\<rparr>"
  have h: "files ?fs users_file = None \<or>
      (\<exists>users. files ?fs users_file = Some (Document (JObj users)) \<and>
         map_of users ''carol'' \<noteq> Some (JStr (hash_password ''wrong'')))"
    by simp
  from login_wrong_password [OF h] h show ?thesis by blast
qed

subsection \<open>Registration\<close>

lemma user_exists_iff: "user_exists fs u \<longleftrightarrow> files fs (portfolio_path u) \<noteq> None"
  by (simp add: user_exists_def os_path_exists_def)

text \<open>
  \<^verbatim>\<open>register_user\<close> returns \<^verbatim>\<open>False\<close> exactly when the portfolio file of the
  user name exists, and then changes no file.
\<close>

lemma register_user_False_iff:
  "fst (register_user fs now u p) = Inr False \<longleftrightarrow> user_exists fs u"
  by (auto simp: register_user_def Let_def split: prod.splits sum.splits)

lemma register_user_existing:
  "user_exists fs u \<Longrightarrow> register_user fs now u p = (Inr False, fs)"
  by (simp add: register_user_def)

lemma register_user_Inr_True:
  "register_user fs now u p = (Inr True, fs') \<longleftrightarrow>
     \<not> user_exists fs u \<and>
     (\<exists>fs1. save_user_credentials fs u (hash_password p) = (Inr (), fs1) \<and>
            save_user_portfolio fs1 now u (JObj []) = (Inr True, fs'))"
  by (auto simp: register_user_def Let_def save_user_portfolio_def
      split: prod.splits sum.splits)

text \<open>After a registration that returned \<^verbatim>\<open>True\<close>, the portfolio file exists.\<close>

lemma register_user_then_exists:
  assumes "register_user fs now u p = (Inr True, fs')"
  shows "user_exists fs' u \<and> load_user_portfolio fs' u = Inr (JObj [], JStr now)"
proof -
  from assms obtain fs1 where "save_user_portfolio fs1 now u (JObj []) = (Inr True, fs')"
    unfolding register_user_Inr_True by blast
  from save_load_roundtrip [OF this] show ?thesis
    by (simp add: user_exists_iff)
qed

text \<open>
  For a user name other than \<^verbatim>\<open>users\<close> that has no path separator (so that
  its portfolio file is a file of the data directory other than the credential
  file), a registration that returned \<^verbatim>\<open>True\<close> has left a credential entry
  that \<^verbatim>\<open>check_credentials\<close> accepts.
\<close>

lemma register_user_then_check:
  assumes "register_user fs now u p = (Inr True, fs')" and "u \<noteq> ''users''"
    and "CHR ''/'' \<notin> set u"
  shows "check_credentials fs' u (hash_password p) = Inr True"
proof -
  from assms(1) obtain fs1 where
    1: "save_user_credentials fs u (hash_password p) = (Inr (), fs1)" and
    2: "save_user_portfolio fs1 now u (JObj []) = (Inr True, fs')"
    unfolding register_user_Inr_True by blast
  from assms(2) have ne: "portfolio_path u \<noteq> users_file"
    by (simp add: portfolio_path_eq_users_file)
  from 2 have "files fs' users_file = files fs1 users_file"
    unfolding save_user_portfolio_Inr using ne by simp
  then have "check_credentials fs' u (hash_password p) = check_credentials fs1 u (hash_password p)"
    by (simp add: check_credentials_def os_path_exists_def read_json_def)
  with check_after_save [OF 1] show ?thesis by simp
qed

text \<open>
  Claim C4, at the user name \<^verbatim>\<open>users\<close> in an empty data directory. The
  portfolio file of this user is the credential file itself:
  \<^verbatim>\<open>register_user\<close> returns \<^verbatim>\<open>True\<close>, but the empty portfolio record written
  at line 134 replaces the credential entry written at line 132, so that no
  credential entry is left and \<^verbatim>\<open>check_credentials\<close> rejects the password
  just registered.
\<close>

theorem register_users_drops_credentials:
  "register_user empty_fs ''2024-05-01 12:00:00'' ''users'' ''pw'' =
     (Inr True, empty_fs\<lparr>files := [users_file \<mapsto>
        Document (JObj [(''portfolio'', JObj []),
                        (''last_updated'', JStr ''2024-05-01 12:00:00'')])]\<rparr>)
   \<and> stored_digest
        (empty_fs\<lparr>files := [users_file \<mapsto>
           Document (JObj [(''portfolio'', JObj []),
                           (''last_updated'', JStr ''2024-05-01 12:00:00'')])]\<rparr>)
        ''users'' = None
   \<and> check_credentials
        (empty_fs\<lparr>files := [users_file \<mapsto>
           Document (JObj [(''portfolio'', JObj []),
                           (''last_updated'', JStr ''2024-05-01 12:00:00'')])]\<rparr>)
        ''users'' (hash_password ''pw'') = Inr False"
  by (simp add: register_user_def user_exists_def os_path_exists_def portfolio_path_users
      save_user_credentials_def save_user_portfolio_def write_json_def
      check_credentials_def read_json_def stored_digest_def)

text \<open>
  Claim C9. If the credential file is an object with an entry for the user name
  and the portfolio file of the user name does not exist (and both files can be
  written), then \<^verbatim>\<open>register_user\<close> returns \<^verbatim>\<open>True\<close>, and afterwards the
  entry stored for the user name is the digest of the new password, which
  \<^verbatim>\<open>check_credentials\<close> accepts. The test of line 128 reads the portfolio
  file only.
\<close>

theorem register_overwrites_digest:
  assumes "files fs users_file = Some (Document (JObj users))"
    and "map_of users u = Some old"
    and "files fs (portfolio_path u) = None"
    and "writable fs users_file" and "writable fs (portfolio_path u)"
  shows "\<exists>fs'. register_user fs now u p = (Inr True, fs') \<and>
           stored_digest fs' u = Some (JStr (hash_password p)) \<and>
           check_credentials fs' u (hash_password p) = Inr True"
proof -
  from assms(1,3) have ne: "portfolio_path u \<noteq> users_file" by auto
  let ?fs1 = "fs\<lparr>files := (files fs)(users_file \<mapsto>
                Document (JObj (AList.update u (JStr (hash_password p)) users)))\<rparr>"
  let ?fs2 = "?fs1\<lparr>files := (files ?fs1)(portfolio_path u \<mapsto>
                Document (JObj [(''portfolio'', JObj []), (''last_updated'', JStr now)]))\<rparr>"
  have 1: "save_user_credentials fs u (hash_password p) = (Inr (), ?fs1)"
    using assms(1,4) by (simp add: save_user_credentials_Inr)
  have 2: "save_user_portfolio ?fs1 now u (JObj []) = (Inr True, ?fs2)"
    using assms(5) by (simp add: save_user_portfolio_Inr)
  have "register_user fs now u p = (Inr True, ?fs2)"
    using assms(3) 1 2 by (simp add: register_user_Inr_True user_exists_iff)
  moreover have "stored_digest ?fs2 u = Some (JStr (hash_password p))"
    using ne by (simp add: stored_digest_def update_conv')
  moreover have "check_credentials ?fs2 u (hash_password p) = Inr True"
    using ne by (simp add: check_credentials_def os_path_exists_def read_json_def update_conv')
  ultimately show ?thesis by blast
qed

theorem register_overwrites_digest_witness:
  "files (empty_fs\<lparr>files := [users_file \<mapsto>
      Document (JObj [(''bob'', JStr (hash_password ''old''))])]\<rparr>) users_file
     = Some (Document (JObj [(''bob'', JStr (hash_password ''old''))]))
   \<and> map_of [(''bob'', JStr (hash_password ''old''))] ''bob'' = Some (JStr (hash_password ''old''))
   \<and> files (empty_fs\<lparr>files := [users_file \<mapsto>
      Document (JObj [(''bob'', JStr (hash_password ''old''))])]\<rparr>) (portfolio_path ''bob'') = None
   \<and> (\<exists>fs'. register_user
          (empty_fs\<lparr>files := [users_file \<mapsto>
             Document (JObj [(''bob'', JStr (hash_password ''old''))])]\<rparr>)
          ''2024-05-01 12:00:00'' ''bob'' ''new'' = (Inr True, fs')
        \<and> stored_digest fs' ''bob'' = Some (JStr (hash_password ''new''))
        \<and> check_credentials fs' ''bob'' (hash_password ''new'') = Inr True)"
proof -
  let ?fs = "empty_fs\<lparr>files := [users_file \<mapsto>
      Document (JObj [(''bob'', JStr (hash_password ''old''))])]\<rparr>"
  have 1: "files ?fs users_file = Some (Document (JObj [(''bob'', JStr (hash_password ''old''))]))"
    by simp
  have 2: "map_of [(''bob'', JStr (hash_password ''old''))] ''bob''
             = Some (JStr (hash_password ''old''))"
    by simp
  have 3: "files ?fs (portfolio_path ''bob'') = None"
    by (simp add: portfolio_path_eq_users_file)
  have 4: "writable ?fs users_file" and 5: "writable ?fs (portfolio_path ''bob'')"
    by simp_all
  from register_overwrites_digest [OF 1 2 3 4 5, of "''2024-05-01 12:00:00''" "''new''"] 1 2 3
  show ?thesis by blast
qed

subsection \<open>Price fetching\<close>

text \<open>
  \<^verbatim>\<open>get_crypto_data\<close> is a total function: whatever the queries do, the loop
  ends and a dictionary is returned. Its keys are the texts before the first
  hyphen of the tickers queried.
\<close>

lemma fetch_loop_keys:
  "fst ` set (fst (fetch_loop q ts m data w)) \<subseteq> fst ` set data \<union> split_first ` set ts"
proof (induction ts arbitrary: m data w)
  case Nil
  then show ?case by simp
next
  case (Cons t ts)
  obtain r m' where q: "q m t = (r, m')" by (cases "q m t")
  show ?case
  proof (cases r)
    case (Raises e)
    with q Cons.IH [of m' data] show ?thesis by auto
  next
    case (History hist)
    show ?thesis
    proof (cases "hist = []")
      case True
      with q History Cons.IH [of m' data] show ?thesis by auto
    next
      case False
      with q History Cons.IH [of m' "AList.update (split_first t) (last hist) data" w]
      show ?thesis by (auto simp: dom_update)
    qed
  qed
qed

lemma split_first_USD:
  assumes "CHR ''-'' \<notin> set s"
  shows "split_first (s @ ''-USD'') = s"
proof -
  have "\<forall>c\<in>set s. c \<noteq> CHR ''-''" using assms by auto
  then show ?thesis by (simp add: split_first_def takeWhile_append2)
qed

text \<open>For symbols without a hyphen, every key of the result is a requested symbol.\<close>

lemma get_crypto_data_keys:
  assumes "\<forall>s\<in>set symbols. CHR ''-'' \<notin> set s"
  shows "fst ` set (fst (get_crypto_data q m symbols)) \<subseteq> set symbols"
proof -
  have "split_first ` set (map (\<lambda>symbol. symbol @ ''-USD'') symbols) = set symbols"
    using assms by (force simp: split_first_USD image_iff)
  with fetch_loop_keys [of q "map (\<lambda>symbol. symbol @ ''-USD'') symbols" m "[]" "[]"]
  show ?thesis by (simp add: get_crypto_data_def)
qed

text \<open>
  Claim C2, at the requested symbol \<^verbatim>\<open>BTC-EUR\<close> with a source that has a
  close price of 42 for the ticker \<^verbatim>\<open>BTC-EUR-USD\<close>. Line 32 cuts the ticker
  at its first hyphen, not at the suffix \<^verbatim>\<open>-USD\<close>: the result has the key
  \<^verbatim>\<open>BTC\<close>, which was not requested, and no key \<^verbatim>\<open>BTC-EUR\<close>.
\<close>

theorem get_crypto_data_hyphen_key:
  "get_crypto_data
     (\<lambda>m ticker. (if ticker = ''BTC-EUR-USD'' then History [42] else Raises ''not found'', m))
     () [''BTC-EUR'']
    = ([(''BTC'', 42)], [], ())
   \<and> ''BTC'' \<notin> set [''BTC-EUR'']"
  by (simp add: get_crypto_data_def split_first_def)

subsection \<open>The portfolio page\<close>

lemma in_keys_iff: "k \<in> fst ` set xs \<longleftrightarrow> k \<in> dom (map_of xs)"
  by (simp add: dom_map_of_conv_image_fst)

lemma pfd_filter:
  "portfolio_for_display pf prices = filter (\<lambda>(k, a). k \<in> dom (map_of prices)) pf"
  by (simp add: portfolio_for_display_def in_keys_iff)

lemma distinct_pfd:
  "distinct (map fst pf) \<Longrightarrow> distinct (map fst (portfolio_for_display pf prices))"
  by (simp add: portfolio_for_display_def distinct_map_filter)

lemma map_of_pfd:
  "map_of (portfolio_for_display pf prices) k =
     (if k \<in> dom (map_of prices) then map_of pf k else None)"
  unfolding pfd_filter by (induction pf) (auto simp: domIff)

lemma keys_pfd:
  "set (map fst (portfolio_for_display pf prices)) = dom (map_of pf) \<inter> dom (map_of prices)"
proof -
  have "set (map fst (portfolio_for_display pf prices))
          = dom (map_of (portfolio_for_display pf prices))"
    by (simp add: dom_map_of_conv_image_fst)
  also have "\<dots> = dom (map_of pf) \<inter> dom (map_of prices)"
    unfolding dom_def map_of_pfd by auto
  finally show ?thesis .
qed

text \<open>
  An entry of a dictionary is found again under its key: a look-up at each key
  of a list with distinct keys gives the value paired with the key.
\<close>

lemma map_of_fst_distinct:
  assumes "distinct (map fst xs)"
  shows "map (\<lambda>k. f (the (map_of xs k)) k) (map fst xs) = map (\<lambda>(k, a). f a k) xs"
  using assms
proof (induction xs)
  case Nil
  then show ?case by simp
next
  case (Cons x xs)
  obtain k a where x: "x = (k, a)" by (cases x)
  from Cons.prems x have nk: "k \<notin> fst ` set xs" and d: "distinct (map fst xs)" by auto
  have "map (\<lambda>k'. f (the (map_of (x # xs) k')) k') (map fst xs)
        = map (\<lambda>k'. f (the (map_of xs k')) k') (map fst xs)"
    using nk x by (intro map_cong) auto
  with Cons.IH [OF d] x show ?case by simp
qed

text \<open>
  The products handed to \<^verbatim>\<open>sum\<close>: one for each held symbol that has a
  price, in the order of the holdings, of its amount and its price. The
  defaults of \<^verbatim>\<open>.get\<close> are never taken.
\<close>

lemma products_eq:
  assumes "distinct (map fst pf)"
  shows "map (\<lambda>coin. py_mul (dict_get (portfolio_for_display pf prices) coin py_zero)
                          (dict_get prices coin py_zero))
           (map fst (portfolio_for_display pf prices))
         = map (\<lambda>(k, a). py_mul a (the (map_of prices k)))
             (filter (\<lambda>(k, a). k \<in> dom (map_of prices)) pf)"
proof -
  let ?pfd = "portfolio_for_display pf prices"
  have "map (\<lambda>coin. py_mul (dict_get ?pfd coin py_zero) (dict_get prices coin py_zero))
          (map fst ?pfd)
        = map (\<lambda>coin. py_mul (the (map_of ?pfd coin)) (the (map_of prices coin))) (map fst ?pfd)"
  proof (rule map_cong [OF refl])
    fix coin assume "coin \<in> set (map fst ?pfd)"
    then have "coin \<in> dom (map_of pf) \<inter> dom (map_of prices)" by (simp only: keys_pfd)
    then obtain a p where "map_of pf coin = Some a" "map_of prices coin = Some p" by auto
    then show "py_mul (dict_get ?pfd coin py_zero) (dict_get prices coin py_zero)
               = py_mul (the (map_of ?pfd coin)) (the (map_of prices coin))"
      by (simp add: dict_get_def map_of_pfd domI)
  qed
  also have "\<dots> = map (\<lambda>(k, a). py_mul a (the (map_of prices k))) ?pfd"
    by (rule map_of_fst_distinct [OF distinct_pfd [OF assms],
          of "\<lambda>a k. py_mul a (the (map_of prices k))" prices])
  finally show ?thesis by (simp only: pfd_filter)
qed

lemma total_value_eq:
  assumes "distinct (map fst pf)"
  shows "total_value py_mul py_sum py_zero pf prices =
     py_sum (map (\<lambda>(k, a). py_mul a (the (map_of prices k)))
               (filter (\<lambda>(k, a). k \<in> dom (map_of prices)) pf))"
  unfolding total_value_def Let_def products_eq [OF assms] ..

lemma value_column_eq:
  assumes "set coins \<subseteq> dom (map_of pfd)"
  shows "value_column py_mul py_zero pfd prices coins =
           Inr (map (\<lambda>coin. py_mul (the (map_of pfd coin)) (dict_get prices coin py_zero)) coins)"
  using assms by (induction coins) (auto simp: dict_item_def)

lemma zip_columns:
  "zip (map f xs) (zip (map g xs) (zip (map h xs) (map i xs)))
     = map (\<lambda>x. (f x, g x, h x, i x)) xs"
  by (induction xs) auto

text \<open>
  The table has one row for each held symbol that has a price, in the order of
  the holdings: symbol, amount, price, and their product. The look-up of line
  249 never raises.
\<close>

lemma portfolio_data_eq:
  assumes "distinct (map fst pf)"
  shows "portfolio_data py_mul py_zero pf prices =
     Inr (if dom (map_of pf) \<inter> dom (map_of prices) = {} then None
          else Some (map (\<lambda>(k, a). (k, a, the (map_of prices k),
                                     py_mul a (the (map_of prices k))))
                       (filter (\<lambda>(k, a). k \<in> dom (map_of prices)) pf)))"
proof -
  let ?pfd = "portfolio_for_display pf prices"
  let ?g = "\<lambda>k. dict_get prices k py_zero"
  have pfd: "?pfd = filter (\<lambda>(k, a). k \<in> dom (map_of prices)) pf"
    by (rule pfd_filter)
  have empty: "?pfd = [] \<longleftrightarrow> dom (map_of pf) \<inter> dom (map_of prices) = {}"
    using keys_pfd [of pf prices] by (metis map_is_Nil_conv set_empty)
  have "set (map fst ?pfd) \<subseteq> dom (map_of ?pfd)"
    by (simp add: dom_map_of_conv_image_fst)
  then have vc: "value_column py_mul py_zero ?pfd prices (map fst ?pfd) =
      Inr (map (\<lambda>coin. py_mul (the (map_of ?pfd coin)) (?g coin)) (map fst ?pfd))"
    by (rule value_column_eq)
  have "map (\<lambda>coin. py_mul (the (map_of ?pfd coin)) (?g coin)) (map fst ?pfd)
        = map (\<lambda>(k, a). py_mul a (?g k)) ?pfd"
    by (rule map_of_fst_distinct [OF distinct_pfd [OF assms], of "\<lambda>a k. py_mul a (?g k)" prices])
  with vc have vc': "value_column py_mul py_zero ?pfd prices (map fst ?pfd) =
      Inr (map (\<lambda>(k, a). py_mul a (?g k)) ?pfd)" by simp
  have rows: "zip (map fst ?pfd)
          (zip (map snd ?pfd)
             (zip (map ?g (map fst ?pfd))
                (map (\<lambda>(k, a). py_mul a (?g k)) ?pfd)))
        = map (\<lambda>(k, a). (k, a, the (map_of prices k), py_mul a (the (map_of prices k)))) ?pfd"
  proof -
    have "zip (map fst ?pfd)
          (zip (map snd ?pfd)
             (zip (map ?g (map fst ?pfd))
                (map (\<lambda>(k, a). py_mul a (?g k)) ?pfd)))
        = map (\<lambda>x. (fst x, snd x, ?g (fst x), (case x of (k, a) \<Rightarrow> py_mul a (?g k)))) ?pfd"
      unfolding map_map comp_def
      by (rule zip_columns [of fst ?pfd snd "\<lambda>x. ?g (fst x)"])
    also have "\<dots> = map (\<lambda>(k, a). (k, a, the (map_of prices k),
                                    py_mul a (the (map_of prices k)))) ?pfd"
      by (rule map_cong) (auto simp: pfd dict_get_def)
    finally show ?thesis .
  qed
  have "portfolio_data py_mul py_zero pf prices =
      (if ?pfd \<noteq> [] then
         Inr (Some (map (\<lambda>(k, a). (k, a, the (map_of prices k),
                                   py_mul a (the (map_of prices k)))) ?pfd))
       else Inr None)"
    by (simp only: portfolio_data_def Let_def vc' sum.case rows)
  then show ?thesis
    using empty by (simp add: pfd)
qed

text \<open>
  Claim C5. For holdings and prices that are dictionaries of numbers, the total
  of lines 238-239 is Python's \<^verbatim>\<open>sum\<close> of the products amount \<^verbatim>\<open>*\<close> price,
  taken in the order of the holdings over exactly the held symbols that have
  a price, and the table has a row for exactly those symbols: a held symbol
  without a price adds no term to the sum and has no row. The statement holds
  for Python's own arithmetic, whatever it rounds. In the witness the
  arithmetic is that of the real numbers, with which floats agree on 2, 100
  and 200: the total of the spec's example is 200, and ETH has no row.
\<close>

theorem valuation_of_priced_holdings:
  assumes "distinct (map fst pf)"
  shows "total_value py_mul py_sum py_zero pf prices =
           py_sum (map (\<lambda>(k, a). py_mul a (the (map_of prices k)))
                     (filter (\<lambda>(k, a). k \<in> dom (map_of prices)) pf))
         \<and> portfolio_data py_mul py_zero pf prices =
             Inr (if dom (map_of pf) \<inter> dom (map_of prices) = {} then None
                  else Some (map (\<lambda>(k, a). (k, a, the (map_of prices k),
                                             py_mul a (the (map_of prices k))))
                               (filter (\<lambda>(k, a). k \<in> dom (map_of prices)) pf)))"
  using total_value_eq [OF assms] portfolio_data_eq [OF assms] by blast

theorem valuation_of_priced_holdings_witness:
  "distinct (map fst [(''BTC'', 2 :: real), (''ETH'', 1)])
   \<and> total_value (*) sum_list 0 [(''BTC'', 2 :: real), (''ETH'', 1)] [(''BTC'', 100)] = 200
   \<and> portfolio_data (*) 0 [(''BTC'', 2 :: real), (''ETH'', 1)] [(''BTC'', 100)]
       = Inr (Some [(''BTC'', 2, 100, 200)])"
proof -
  have d: "distinct (map fst [(''BTC'', 2 :: real), (''ETH'', 1)])" by simp
  have k: "dom (map_of [(''BTC'', 2 :: real), (''ETH'', 1)]) \<inter> dom (map_of [(''BTC'', 100 :: real)])
             = {''BTC''}"
    by auto
  from valuation_of_priced_holdings [OF d, of "(*)" sum_list 0 "[(''BTC'', 100)]"] d
  show ?thesis unfolding k by simp
qed

text \<open>
  Claim C6. Whenever the "Save Changes" branch completes, the portfolio
  persisted for the session's user and the portfolio of the session are the
  entries of the edited portfolio whose amount is greater than zero, in their
  order, and nothing else; the file carries the timestamp of the save and the
  session the timestamp read after it.
\<close>

theorem save_changes_prunes:
  assumes "save_changes fs now_file now_session s edits = (Inr (), fs', s')"
  shows "load_user_portfolio fs' (username s)
           = Inr (holdings_json (filter (\<lambda>(k, v). 0 < v) edits), JStr now_file)
         \<and> portfolio s' = holdings_json (filter (\<lambda>(k, v). 0 < v) edits)
         \<and> last_updated s' = JStr now_session
         \<and> username s' = username s \<and> authenticated s' = authenticated s"
proof -
  let ?kept = "filter (\<lambda>(k, v). 0 < v) edits"
  from assms obtain r where
    sv: "save_user_portfolio fs now_file (username s) (holdings_json ?kept) = (Inr r, fs')" and
    s': "s' = s\<lparr>portfolio := holdings_json ?kept, last_updated := JStr now_session\<rparr>"
    by (auto simp: save_changes_def Let_def split: prod.splits sum.splits)
  from save_load_roundtrip [OF sv] s' show ?thesis by simp
qed

theorem save_changes_prunes_witness:
  "save_changes empty_fs ''2024-05-01 12:00:00'' ''2024-05-01 12:00:01''
      \<lparr>authenticated = True, username = ''alice'',
       portfolio = holdings_json [(''BTC'', 1)], last_updated = JStr ''2024-04-30 09:00:00''\<rparr>
      [(''BTC'', 0), (''ETH'', 3)]
     = (Inr (),
        empty_fs\<lparr>files := [portfolio_path ''alice'' \<mapsto>
          Document (JObj [(''portfolio'', holdings_json [(''ETH'', 3)]),
                          (''last_updated'', JStr ''2024-05-01 12:00:00'')])]\<rparr>,
        \<lparr>authenticated = True, username = ''alice'',
         portfolio = holdings_json [(''ETH'', 3)],
         last_updated = JStr ''2024-05-01 12:00:01''\<rparr>)
   \<and> load_user_portfolio
        (empty_fs\<lparr>files := [portfolio_path ''alice'' \<mapsto>
          Document (JObj [(''portfolio'', holdings_json [(''ETH'', 3)]),
                          (''last_updated'', JStr ''2024-05-01 12:00:00'')])]\<rparr>) ''alice''
       = Inr (holdings_json [(''ETH'', 3)], JStr ''2024-05-01 12:00:00'')"
proof -
  let ?s = "\<lparr>authenticated = True, username = ''alice'',
       portfolio = holdings_json [(''BTC'', 1)], last_updated = JStr ''2024-04-30 09:00:00''\<rparr>"
  have h: "save_changes empty_fs ''2024-05-01 12:00:00'' ''2024-05-01 12:00:01'' ?s
      [(''BTC'', 0), (''ETH'', 3)]
     = (Inr (),
        empty_fs\<lparr>files := [portfolio_path ''alice'' \<mapsto>
          Document (JObj [(''portfolio'', holdings_json [(''ETH'', 3)]),
                          (''last_updated'', JStr ''2024-05-01 12:00:00'')])]\<rparr>,
        \<lparr>authenticated = True, username = ''alice'',
         portfolio = holdings_json [(''ETH'', 3)],
         last_updated = JStr ''2024-05-01 12:00:01''\<rparr>)"
    by (simp add: save_changes_def save_user_portfolio_def write_json_def Let_def)
  from save_changes_prunes [OF h] h show ?thesis by simp
qed

end
